theory Spec2Isabelle
  imports Main
begin

section \<open>The metrics-server start-up orchestrator (cmd/metrics-server/app/start.go)\<close>

text \<open>
  The file under verification assembles the API server configuration
  (\<open>MetricsServerOptions.Config\<close>) and wires and starts the service
  (\<open>MetricsServerOptions.Run\<close>).  Everything else it touches lives in other
  packages: the generic API server library, the cluster client library and the
  collection pipeline.  Those collaborators are parameters of the model (the
  record \<open>env\<close> below), so every theorem holds whatever they compute.  Each
  call into a collaborator is also appended to a trace, in program order, so
  that the order of the calls can be stated.
\<close>

subsection \<open>Errors\<close>

text \<open>
  An error handed back by a collaborator is known here only by its message.
  An error leaving this file is either such an error passed on as it is
  (\<open>return err\<close>) or a new one made by \<open>fmt.Errorf(format, err)\<close>.
\<close>

type_synonym ext_error = string

datatype error =
    Err ext_error
  | Errorf string ext_error

text \<open>
  The message of an error.  Every format string of this file ends in the verb
  \<open>%v\<close>, which is replaced by the message of the wrapped error.
\<close>

fun Error :: "error \<Rightarrow> string" where
  "Error (Err e) = e"
| "Error (Errorf format e) = take (length format - 2) format @ e"

subsection \<open>Values of library types\<close>

text \<open>
  This file only passes the values of most library types on.  Such a value is a
  tag around a natural number that names it.
\<close>

datatype IP = ParseIP string
datatype DelegatingAuthenticationOptions = DelegatingAuthenticationOptions_obj nat
datatype DelegatingAuthorizationOptions = DelegatingAuthorizationOptions_obj nat
datatype FeatureOptions = FeatureOptions_obj nat
datatype SecureServingInfo = SecureServingInfo_obj nat
datatype AuthenticationInfo = AuthenticationInfo_obj nat
datatype AuthorizationInfo = AuthorizationInfo_obj nat
datatype OpenAPIConfig = OpenAPIConfig_obj nat
datatype SwaggerConfig = SwaggerConfig_obj nat
datatype MetricsProvider = MetricsProvider_obj nat
datatype MetricSink = MetricSink_obj nat
datatype rest_Config = rest_Config_obj nat
datatype Clientset = Clientset_obj nat
datatype SharedInformerFactory = SharedInformerFactory_obj nat
datatype NodeLister = NodeLister_obj nat
datatype KubeletClientConfig = KubeletClientConfig_obj nat
datatype KubeletInterface = KubeletInterface_obj nat
datatype MetricSourceProvider = MetricSourceProvider_obj nat
datatype MetricSource = MetricSource_obj nat
datatype Manager = Manager_obj nat
datatype HealthzChecker = NamedCheck string Manager
datatype MetricsServer = MetricsServer_obj nat
datatype preparedGenericAPIServer = preparedGenericAPIServer_obj nat
datatype stop_chan = stop_chan_obj nat

text \<open>
  Modelled from the spec: the TLS serving options are declared in the generic
  API server library, which is not part of the sources.  The spec says of them
  only that they hold the certificate paths that the first step of
  configuration assembly populates; the record keeps those two paths and
  leaves the rest to its extension slot.
\<close>

record SecureServingOptions =
  CertFile :: string
  KeyFile :: string

subsection \<open>The data of this file\<close>

text \<open>
  \<open>MetricsServerOptions\<close>.  The first four fields are pointers in the source;
  each is modelled by the structure it points to, and a function that is handed
  the options returns them as the caller finds them afterwards.  The pointers
  are those that \<open>NewMetricsServerOptions\<close> allocates; the four structures
  have four different types, so no two of them are the same object.
  \<open>time.Duration\<close> is a number of nanoseconds.
\<close>

record MetricsServerOptions =
  SecureServing :: SecureServingOptions
  Authentication :: DelegatingAuthenticationOptions
  Authorization :: DelegatingAuthorizationOptions
  Features :: FeatureOptions
  Kubeconfig :: string
  DisableAuthForTesting :: bool
  MetricResolution :: int
  KubeletPort :: int
  InsecureKubelet :: bool

text \<open>
  \<open>genericapiserver.Config\<close>: the fields this file reads or writes.
  \<open>apiserver.ProviderConfig\<close> holds two interface values, \<open>None\<close> for nil.
\<close>

record genericapiserver_Config =
  gc_SecureServing :: SecureServingInfo
  gc_Authentication :: AuthenticationInfo
  gc_Authorization :: AuthorizationInfo
  SwaggerConfig :: "SwaggerConfig option"
  EnableMetrics :: bool

record apiserver_ProviderConfig =
  Node :: "MetricsProvider option"
  Pod :: "MetricsProvider option"

record apiserver_Config =
  GenericConfig :: genericapiserver_Config
  ProviderConfig :: apiserver_ProviderConfig

subsection \<open>The collaborators\<close>

text \<open>
  One field for each function of another package that this file calls.  A
  method with a pointer receiver takes the state of its receiver and returns
  the new state next to its result; a method that writes through a pointer
  argument takes the old value behind the pointer and returns the new one.
  A function that returns \<open>(value, error)\<close> returns that pair.
\<close>

record env =
  MaybeDefaultWithSelfSignedCerts ::
    "SecureServingOptions \<Rightarrow> string \<Rightarrow> string list \<Rightarrow> IP list
       \<Rightarrow> ext_error option \<times> SecureServingOptions"
  NewConfig :: genericapiserver_Config
  SecureServing_ApplyTo ::
    "SecureServingOptions \<Rightarrow> SecureServingInfo
       \<Rightarrow> ext_error option \<times> SecureServingOptions \<times> SecureServingInfo"
  Authentication_ApplyTo ::
    "DelegatingAuthenticationOptions \<Rightarrow> AuthenticationInfo \<Rightarrow> SecureServingInfo
       \<Rightarrow> OpenAPIConfig option
       \<Rightarrow> ext_error option \<times> DelegatingAuthenticationOptions \<times> AuthenticationInfo"
  Authorization_ApplyTo ::
    "DelegatingAuthorizationOptions \<Rightarrow> AuthorizationInfo
       \<Rightarrow> ext_error option \<times> DelegatingAuthorizationOptions \<times> AuthorizationInfo"
  Features_ApplyTo ::
    "FeatureOptions \<Rightarrow> genericapiserver_Config
       \<Rightarrow> ext_error option \<times> FeatureOptions \<times> genericapiserver_Config"
  DefaultSwaggerConfig :: SwaggerConfig
  ClientConfig :: "string \<Rightarrow> rest_Config \<times> ext_error option"
  InClusterConfig :: "rest_Config \<times> ext_error option"
  NewForConfig :: "rest_Config \<Rightarrow> Clientset \<times> ext_error option"
  NewSharedInformerFactory :: "Clientset \<Rightarrow> int \<Rightarrow> SharedInformerFactory"
  GetKubeletConfig :: "rest_Config \<Rightarrow> int \<Rightarrow> KubeletClientConfig"
  KubeletClientFor :: "KubeletClientConfig \<Rightarrow> KubeletInterface \<times> ext_error option"
  Nodes_Lister :: "SharedInformerFactory \<Rightarrow> NodeLister"
  NewSummaryProvider :: "NodeLister \<Rightarrow> KubeletInterface \<Rightarrow> MetricSourceProvider"
  DefaultMetricsScrapeTimeout :: int
  NewSourceManager :: "MetricSourceProvider \<Rightarrow> int \<Rightarrow> MetricSource \<times> ext_error option"
  NewSinkProvider :: "MetricSink \<times> MetricsProvider"
  NewManager :: "MetricSource \<Rightarrow> MetricSink \<Rightarrow> int \<Rightarrow> Manager"
  Complete_New :: "apiserver_Config \<Rightarrow> SharedInformerFactory \<Rightarrow> MetricsServer \<times> ext_error option"
  PrepareRun :: "MetricsServer \<Rightarrow> preparedGenericAPIServer"
  Run_server :: "preparedGenericAPIServer \<Rightarrow> stop_chan \<Rightarrow> ext_error option"

text \<open>The calls, with the arguments they were made with.\<close>

datatype call =
    Call_MaybeDefaultWithSelfSignedCerts SecureServingOptions string "string list" "IP list"
  | Call_NewConfig
  | Call_SecureServing_ApplyTo SecureServingOptions SecureServingInfo
  | Call_Authentication_ApplyTo DelegatingAuthenticationOptions AuthenticationInfo
      SecureServingInfo "OpenAPIConfig option"
  | Call_Authorization_ApplyTo DelegatingAuthorizationOptions AuthorizationInfo
  | Call_Features_ApplyTo FeatureOptions genericapiserver_Config
  | Call_DefaultSwaggerConfig
  | Call_ClientConfig string
  | Call_InClusterConfig
  | Call_NewForConfig rest_Config
  | Call_NewSharedInformerFactory Clientset int
  | Call_GetKubeletConfig rest_Config int
  | Call_KubeletClientFor KubeletClientConfig
  | Call_Nodes_Lister SharedInformerFactory
  | Call_NewSummaryProvider NodeLister KubeletInterface
  | Call_NewSourceManager MetricSourceProvider int
  | Call_NewSinkProvider
  | Call_NewManager MetricSource MetricSink int
  | Call_Complete_New apiserver_Config SharedInformerFactory
  | Call_AddHealthzChecks MetricsServer HealthzChecker
  | Call_RunUntil Manager stop_chan
  | Call_PrepareRun MetricsServer
  | Call_Run_server preparedGenericAPIServer stop_chan

subsection \<open>\<open>MetricsServerOptions.Config\<close>\<close>

text \<open>
  The result is the pair \<open>(*apiserver.Config, error)\<close> of the source, nil being
  \<open>None\<close>, then the options as the caller finds them afterwards, then the
  calls made.
\<close>

definition Config ::
  "env \<Rightarrow> MetricsServerOptions
     \<Rightarrow> (apiserver_Config option \<times> error option) \<times> MetricsServerOptions \<times> call list" where
  "Config env opts =
    (let (err, ss1) = MaybeDefaultWithSelfSignedCerts env (SecureServing opts)
                         ''localhost'' [] [ParseIP ''127.0.0.1''];
         tr1 = [Call_MaybeDefaultWithSelfSignedCerts (SecureServing opts)
                  ''localhost'' [] [ParseIP ''127.0.0.1'']];
         opts1 = opts\<lparr>SecureServing := ss1\<rparr>
     in case err of
          Some e \<Rightarrow>
            ((None, Some (Errorf ''error creating self-signed certificates: %v'' e)), opts1, tr1)
        | None \<Rightarrow>
    (let serverConfig = NewConfig env;
         tr2 = tr1 @ [Call_NewConfig];
         (err, ss2, si) = SecureServing_ApplyTo env (SecureServing opts1)
                            (gc_SecureServing serverConfig);
         tr3 = tr2 @ [Call_SecureServing_ApplyTo (SecureServing opts1)
                        (gc_SecureServing serverConfig)];
         opts2 = opts1\<lparr>SecureServing := ss2\<rparr>;
         serverConfig = serverConfig\<lparr>gc_SecureServing := si\<rparr>
     in case err of
          Some e \<Rightarrow> ((None, Some (Err e)), opts2, tr3)
        | None \<Rightarrow>
    (let finish = (\<lambda>serverConfig opts' tr.
           (let serverConfig = serverConfig\<lparr>SwaggerConfig := Some (DefaultSwaggerConfig env)\<rparr>;
                tr = tr @ [Call_DefaultSwaggerConfig]
            in ((Some \<lparr>GenericConfig = serverConfig,
                       ProviderConfig = \<lparr>Node = None, Pod = None\<rparr>\<rparr>, None), opts', tr)))
     in if \<not> DisableAuthForTesting opts then
       (let (err, an1, ai) = Authentication_ApplyTo env (Authentication opts2)
                               (gc_Authentication serverConfig)
                               (gc_SecureServing serverConfig) None;
            tr4 = tr3 @ [Call_Authentication_ApplyTo (Authentication opts2)
                           (gc_Authentication serverConfig)
                           (gc_SecureServing serverConfig) None];
            opts3 = opts2\<lparr>Authentication := an1\<rparr>;
            serverConfig = serverConfig\<lparr>gc_Authentication := ai\<rparr>
        in case err of
             Some e \<Rightarrow> ((None, Some (Err e)), opts3, tr4)
           | None \<Rightarrow>
       (let (err, az1, zi) = Authorization_ApplyTo env (Authorization opts3)
                               (gc_Authorization serverConfig);
            tr5 = tr4 @ [Call_Authorization_ApplyTo (Authorization opts3)
                           (gc_Authorization serverConfig)];
            opts4 = opts3\<lparr>Authorization := az1\<rparr>;
            serverConfig = serverConfig\<lparr>gc_Authorization := zi\<rparr>
        in case err of
             Some e \<Rightarrow> ((None, Some (Err e)), opts4, tr5)
           | None \<Rightarrow> finish serverConfig opts4 tr5))
     else finish serverConfig opts2 tr3)))"

subsection \<open>\<open>MetricsServerOptions.Run\<close>\<close>

text \<open>
  \<open>Run\<close> returns an error or nil.  Reading a field through a nil pointer
  panics in Go; the one place where the source does so without a check is
  \<open>config.GenericConfig\<close>, and the model has that branch.
\<close>

datatype result = Return "error option" | Panic

definition Run ::
  "env \<Rightarrow> MetricsServerOptions \<Rightarrow> stop_chan \<Rightarrow> result \<times> MetricsServerOptions \<times> call list" where
  "Run env opts stopCh =
    (let ((config, err), opts', tr) = Config env opts
     in case err of
          Some e \<Rightarrow> (Return (Some e), opts', tr)
        | None \<Rightarrow>
    (case config of
          None \<Rightarrow> (Panic, opts', tr)
        | Some config \<Rightarrow>
    (let config = config\<lparr>GenericConfig := (GenericConfig config)\<lparr>EnableMetrics := True\<rparr>\<rparr>;
         (clientConfig, err) =
           (if length (Kubeconfig opts) > 0 then ClientConfig env (Kubeconfig opts)
            else InClusterConfig env);
         tr = tr @ [if length (Kubeconfig opts) > 0 then Call_ClientConfig (Kubeconfig opts)
                    else Call_InClusterConfig]
     in case err of
          Some e \<Rightarrow>
            (Return (Some (Errorf ''unable to construct lister client config: %v'' e)), opts', tr)
        | None \<Rightarrow>
    (let (kubeClient, err) = NewForConfig env clientConfig;
         tr = tr @ [Call_NewForConfig clientConfig]
     in case err of
          Some e \<Rightarrow>
            (Return (Some (Errorf ''unable to construct lister client: %v'' e)), opts', tr)
        | None \<Rightarrow>
    (let informerFactory = NewSharedInformerFactory env kubeClient 0;
         tr = tr @ [Call_NewSharedInformerFactory kubeClient 0];
         kubeletConfig = GetKubeletConfig env clientConfig (KubeletPort opts);
         tr = tr @ [Call_GetKubeletConfig clientConfig (KubeletPort opts)];
         (kubeletClient, err) = KubeletClientFor env kubeletConfig;
         tr = tr @ [Call_KubeletClientFor kubeletConfig]
     in case err of
          Some e \<Rightarrow>
            (Return (Some (Errorf
               ''unable to construct a client to connect to the kubelets: %v'' e)), opts', tr)
        | None \<Rightarrow>
    (let lister = Nodes_Lister env informerFactory;
         tr = tr @ [Call_Nodes_Lister informerFactory];
         sourceProvider = NewSummaryProvider env lister kubeletClient;
         tr = tr @ [Call_NewSummaryProvider lister kubeletClient];
         (sourceManager, err) = NewSourceManager env sourceProvider
                                  (DefaultMetricsScrapeTimeout env);
         tr = tr @ [Call_NewSourceManager sourceProvider (DefaultMetricsScrapeTimeout env)]
     in case err of
          Some e \<Rightarrow>
            (Return (Some (Errorf ''unable to initialize source manager: %v'' e)), opts', tr)
        | None \<Rightarrow>
    (let (metricSink, metricsProvider) = NewSinkProvider env;
         tr = tr @ [Call_NewSinkProvider];
         mgr = NewManager env sourceManager metricSink (MetricResolution opts);
         tr = tr @ [Call_NewManager sourceManager metricSink (MetricResolution opts)]
     in case err of
          Some e \<Rightarrow>
            (Return (Some (Errorf ''unable to create main manager: %v'' e)), opts', tr)
        | None \<Rightarrow>
    (let config = config\<lparr>ProviderConfig := (ProviderConfig config)\<lparr>Node := Some metricsProvider\<rparr>\<rparr>;
         config = config\<lparr>ProviderConfig := (ProviderConfig config)\<lparr>Pod := Some metricsProvider\<rparr>\<rparr>;
         (server, err) = Complete_New env config informerFactory;
         tr = tr @ [Call_Complete_New config informerFactory]
     in case err of
          Some e \<Rightarrow> (Return (Some (Err e)), opts', tr)
        | None \<Rightarrow>
    (let tr = tr @ [Call_AddHealthzChecks server (NamedCheck ''healthz'' mgr)];
         tr = tr @ [Call_RunUntil mgr stopCh];
         prepared = PrepareRun env server;
         tr = tr @ [Call_PrepareRun server];
         r = Run_server env prepared stopCh;
         tr = tr @ [Call_Run_server prepared stopCh]
     in (Return (map_option Err r), opts', tr))))))))))"

subsection \<open>Reading a trace\<close>

text \<open>
  The collaborators are functions, so the error a logged call came back with
  is found again by asking the collaborator at the logged arguments.  A call
  that has no error result never fails.
\<close>

fun call_error :: "env \<Rightarrow> call \<Rightarrow> ext_error option" where
  "call_error env (Call_MaybeDefaultWithSelfSignedCerts s host dns ips) =
     fst (MaybeDefaultWithSelfSignedCerts env s host dns ips)"
| "call_error env (Call_SecureServing_ApplyTo s si) = fst (SecureServing_ApplyTo env s si)"
| "call_error env (Call_Authentication_ApplyTo s ai si oa) =
     fst (Authentication_ApplyTo env s ai si oa)"
| "call_error env (Call_Authorization_ApplyTo s zi) = fst (Authorization_ApplyTo env s zi)"
| "call_error env (Call_Features_ApplyTo s c) = fst (Features_ApplyTo env s c)"
| "call_error env (Call_ClientConfig path) = snd (ClientConfig env path)"
| "call_error env Call_InClusterConfig = snd (InClusterConfig env)"
| "call_error env (Call_NewForConfig c) = snd (NewForConfig env c)"
| "call_error env (Call_KubeletClientFor c) = snd (KubeletClientFor env c)"
| "call_error env (Call_NewSourceManager p t) = snd (NewSourceManager env p t)"
| "call_error env (Call_Complete_New c f) = snd (Complete_New env c f)"
| "call_error env (Call_Run_server p ch) = Run_server env p ch"
| "call_error env _ = None"

text \<open>The calls that start a long-running part of the service.\<close>

fun is_start :: "call \<Rightarrow> bool" where
  "is_start (Call_RunUntil m ch) = True"
| "is_start (Call_PrepareRun s) = True"
| "is_start (Call_Run_server p ch) = True"
| "is_start _ = False"

text \<open>The calls that resolve the credentials of the cluster client.\<close>

fun is_credential_call :: "call \<Rightarrow> bool" where
  "is_credential_call (Call_ClientConfig path) = True"
| "is_credential_call Call_InClusterConfig = True"
| "is_credential_call _ = False"

text \<open>The calls that belong to configuration assembly.\<close>

fun is_config_call :: "call \<Rightarrow> bool" where
  "is_config_call (Call_MaybeDefaultWithSelfSignedCerts s host dns ips) = True"
| "is_config_call Call_NewConfig = True"
| "is_config_call (Call_SecureServing_ApplyTo s si) = True"
| "is_config_call (Call_Authentication_ApplyTo s ai si oa) = True"
| "is_config_call (Call_Authorization_ApplyTo s zi) = True"
| "is_config_call (Call_Features_ApplyTo s c) = True"
| "is_config_call Call_DefaultSwaggerConfig = True"
| "is_config_call _ = False"

text \<open>The calls made before the first occurrence of a given call.\<close>

definition calls_before :: "call \<Rightarrow> call list \<Rightarrow> call list" where
  "calls_before c tr = takeWhile (\<lambda>x. x \<noteq> c) tr"

text \<open>
  How the source hands the error of a failed call back to its caller: the
  return statement that follows the call, for each call that has one.
\<close>

fun returned_for :: "call \<Rightarrow> ext_error \<Rightarrow> error" where
  "returned_for (Call_MaybeDefaultWithSelfSignedCerts s host dns ips) e =
     Errorf ''error creating self-signed certificates: %v'' e"
| "returned_for (Call_ClientConfig path) e =
     Errorf ''unable to construct lister client config: %v'' e"
| "returned_for Call_InClusterConfig e =
     Errorf ''unable to construct lister client config: %v'' e"
| "returned_for (Call_NewForConfig c) e = Errorf ''unable to construct lister client: %v'' e"
| "returned_for (Call_KubeletClientFor c) e =
     Errorf ''unable to construct a client to connect to the kubelets: %v'' e"
| "returned_for (Call_NewSourceManager p t) e =
     Errorf ''unable to initialize source manager: %v'' e"
| "returned_for _ e = Err e"

subsection \<open>A concrete environment\<close>

text \<open>
  Modelled from the spec: the TLS defaulting step belongs to the generic API
  server library, which is not part of the sources.  The spec says of it: if
  no serving certificate was supplied, generate a self-signed one, after
  which the certificate paths are populated for the later steps to read.
\<close>

definition spec_MaybeDefaultWithSelfSignedCerts ::
  "SecureServingOptions \<Rightarrow> string \<Rightarrow> string list \<Rightarrow> IP list
     \<Rightarrow> ext_error option \<times> SecureServingOptions" where
  "spec_MaybeDefaultWithSelfSignedCerts s host dns ips =
     (if CertFile s = [] \<and> KeyFile s = []
      then (None, s\<lparr>CertFile := ''apiserver.crt'', KeyFile := ''apiserver.key''\<rparr>)
      else (None, s))"

text \<open>An environment in which every call succeeds.\<close>

definition example_env :: env where
  "example_env =
    \<lparr>MaybeDefaultWithSelfSignedCerts = spec_MaybeDefaultWithSelfSignedCerts,
     NewConfig = \<lparr>gc_SecureServing = SecureServingInfo_obj 0,
                  gc_Authentication = AuthenticationInfo_obj 0,
                  gc_Authorization = AuthorizationInfo_obj 0,
                  SwaggerConfig = None, EnableMetrics = False\<rparr>,
     SecureServing_ApplyTo = (\<lambda>s si. (None, s, SecureServingInfo_obj 1)),
     Authentication_ApplyTo = (\<lambda>s ai si oa. (None, s, AuthenticationInfo_obj 1)),
     Authorization_ApplyTo = (\<lambda>s zi. (None, s, AuthorizationInfo_obj 1)),
     Features_ApplyTo = (\<lambda>s c. (None, s, c)),
     DefaultSwaggerConfig = SwaggerConfig_obj 1,
     ClientConfig = (\<lambda>path. (rest_Config_obj 1, None)),
     InClusterConfig = (rest_Config_obj 2, None),
     NewForConfig = (\<lambda>c. (Clientset_obj 1, None)),
     NewSharedInformerFactory = (\<lambda>c resync. SharedInformerFactory_obj 1),
     GetKubeletConfig = (\<lambda>c port. KubeletClientConfig_obj 1),
     KubeletClientFor = (\<lambda>c. (KubeletInterface_obj 1, None)),
     Nodes_Lister = (\<lambda>f. NodeLister_obj 1),
     NewSummaryProvider = (\<lambda>l k. MetricSourceProvider_obj 1),
     DefaultMetricsScrapeTimeout = 8000000000,
     NewSourceManager = (\<lambda>p t. (MetricSource_obj 1, None)),
     NewSinkProvider = (MetricSink_obj 1, MetricsProvider_obj 1),
     NewManager = (\<lambda>s k r. Manager_obj 1),
     Complete_New = (\<lambda>c f. (MetricsServer_obj 1, None)),
     PrepareRun = (\<lambda>s. preparedGenericAPIServer_obj 1),
     Run_server = (\<lambda>p ch. None)\<rparr>"

text \<open>
  The options \<open>NewMetricsServerOptions\<close> builds (a resolution of 60 seconds,
  port 10250), with no serving certificate supplied.
\<close>

definition example_opts :: MetricsServerOptions where
  "example_opts =
    \<lparr>SecureServing = \<lparr>CertFile = [], KeyFile = []\<rparr>,
     Authentication = DelegatingAuthenticationOptions_obj 0,
     Authorization = DelegatingAuthorizationOptions_obj 0,
     Features = FeatureOptions_obj 0,
     Kubeconfig = [],
     DisableAuthForTesting = False,
     MetricResolution = 60 * 1000000000,
     KubeletPort = 10250,
     InsecureKubelet = False\<rparr>"

text \<open>The same environment when the serving port cannot be bound.\<close>

definition port_in_use_env :: env where
  "port_in_use_env =
     example_env\<lparr>SecureServing_ApplyTo :=
       (\<lambda>s si. (Some ''failed to create listener: address already in use'', s, si))\<rparr>"

text \<open>The same environment when the service does not run inside a cluster.\<close>

definition outside_cluster_env :: env where
  "outside_cluster_env =
     example_env\<lparr>InClusterConfig :=
       (rest_Config_obj 0, Some ''unable to load in-cluster configuration'')\<rparr>"

text \<open>The options of the example with a credentials file.\<close>

definition kubeconfig_opts :: MetricsServerOptions where
  "kubeconfig_opts = example_opts\<lparr>Kubeconfig := ''/etc/kubernetes/admin.conf''\<rparr>"


section \<open>Properties\<close>

subsection \<open>The outcomes of \<open>Config\<close>\<close>

lemma Config_result_cases:
  "(\<exists>e. fst (Config env opts) = (None, Some e)) \<or> (\<exists>c. fst (Config env opts) = (Some c, None))"
  by (simp add: Config_def Let_def split_def split: option.splits)

lemma Config_calls:
  "c \<in> set (snd (snd (Config env opts))) \<Longrightarrow> is_config_call c"
  by (auto simp add: Config_def Let_def split_def split: option.splits if_splits)

lemma Config_failed_call:
  "c \<in> set (snd (snd (Config env opts))) \<Longrightarrow> call_error env c = Some e \<Longrightarrow>
     fst (Config env opts) = (None, Some (returned_for c e)) \<and>
     last (snd (snd (Config env opts))) = c"
  by (auto simp add: Config_def Let_def split_def split: option.splits if_splits)

lemma Config_ok_calls:
  "snd (fst (Config env opts)) = None \<Longrightarrow> c \<in> set (snd (snd (Config env opts))) \<Longrightarrow>
     call_error env c = None"
  by (auto simp add: Config_def Let_def split_def split: option.splits if_splits)

lemma Config_error_forms:
  "snd (fst (Config env opts)) = Some x \<Longrightarrow>
     (\<exists>e. x = Err e) \<or> (\<exists>e. x = Errorf ''error creating self-signed certificates: %v'' e)"
  by (auto simp add: Config_def Let_def split_def split: option.splits if_splits)

subsection \<open>The paths through \<open>Run\<close>\<close>

text \<open>
  \<open>Run\<close> leaves at one of seven places.  For each, the rule gives the result,
  the calls made after configuration assembly and what the fallible calls
  among them came back with.
\<close>

lemma Run_cases:
  assumes C: "Config env opts = ((config, err), opts', tr0)"
  obtains
    (config_err) e where
      "err = Some e"
      "Run env opts stopCh = (Return (Some e), opts', tr0)"
  | (client_config_err) cfg cred e where
      "err = None" "config = Some cfg"
      "cred = (if length (Kubeconfig opts) > 0 then Call_ClientConfig (Kubeconfig opts)
                 else Call_InClusterConfig)"
      "call_error env cred = Some e"
      "Run env opts stopCh =
         (Return (Some (Errorf ''unable to construct lister client config: %v'' e)), opts',
          tr0 @ [cred])"
  | (client_err) cfg cred clientConfig e where
      "err = None" "config = Some cfg"
      "cred = (if length (Kubeconfig opts) > 0 then Call_ClientConfig (Kubeconfig opts)
                 else Call_InClusterConfig)"
      "clientConfig = fst (if length (Kubeconfig opts) > 0 then ClientConfig env (Kubeconfig opts)
                             else InClusterConfig env)"
      "call_error env cred = None"
      "call_error env (Call_NewForConfig clientConfig) = Some e"
      "Run env opts stopCh =
         (Return (Some (Errorf ''unable to construct lister client: %v'' e)), opts',
          tr0 @ [cred, Call_NewForConfig clientConfig])"
  | (kubelet_err) cfg cred clientConfig kubeletConfig e kubeClient where
      "err = None" "config = Some cfg"
      "cred = (if length (Kubeconfig opts) > 0 then Call_ClientConfig (Kubeconfig opts)
                 else Call_InClusterConfig)"
      "clientConfig = fst (if length (Kubeconfig opts) > 0 then ClientConfig env (Kubeconfig opts)
                             else InClusterConfig env)"
      "call_error env cred = None"
      "call_error env (Call_NewForConfig clientConfig) = None"
      "call_error env (Call_KubeletClientFor kubeletConfig) = Some e"
      "Run env opts stopCh =
         (Return (Some (Errorf
            ''unable to construct a client to connect to the kubelets: %v'' e)), opts',
          tr0 @ [cred, Call_NewForConfig clientConfig,
                 Call_NewSharedInformerFactory kubeClient 0,
                 Call_GetKubeletConfig clientConfig (KubeletPort opts),
                 Call_KubeletClientFor kubeletConfig])"
  | (source_err) cfg cred clientConfig informerFactory kubeClient kubeletConfig
      sourceProvider e lister kubeletClient where
      "err = None" "config = Some cfg"
      "cred = (if length (Kubeconfig opts) > 0 then Call_ClientConfig (Kubeconfig opts)
                 else Call_InClusterConfig)"
      "clientConfig = fst (if length (Kubeconfig opts) > 0 then ClientConfig env (Kubeconfig opts)
                             else InClusterConfig env)"
      "informerFactory = NewSharedInformerFactory env kubeClient 0"
      "call_error env cred = None"
      "call_error env (Call_NewForConfig clientConfig) = None"
      "call_error env (Call_KubeletClientFor kubeletConfig) = None"
      "call_error env (Call_NewSourceManager sourceProvider (DefaultMetricsScrapeTimeout env)) = Some e"
      "Run env opts stopCh =
         (Return (Some (Errorf ''unable to initialize source manager: %v'' e)), opts',
          tr0 @ [cred, Call_NewForConfig clientConfig,
                 Call_NewSharedInformerFactory kubeClient 0,
                 Call_GetKubeletConfig clientConfig (KubeletPort opts),
                 Call_KubeletClientFor kubeletConfig, Call_Nodes_Lister informerFactory,
                 Call_NewSummaryProvider lister kubeletClient,
                 Call_NewSourceManager sourceProvider (DefaultMetricsScrapeTimeout env)])"
  | (complete_err) cfg cred clientConfig informerFactory kubeClient metricsProvider config2
      kubeletConfig sourceProvider e lister kubeletClient sourceManager
      metricSink where
      "err = None" "config = Some cfg"
      "cred = (if length (Kubeconfig opts) > 0 then Call_ClientConfig (Kubeconfig opts)
                 else Call_InClusterConfig)"
      "clientConfig = fst (if length (Kubeconfig opts) > 0 then ClientConfig env (Kubeconfig opts)
                             else InClusterConfig env)"
      "informerFactory = NewSharedInformerFactory env kubeClient 0"
      "metricsProvider = snd (NewSinkProvider env)"
      "config2 = cfg\<lparr>GenericConfig := (GenericConfig cfg)\<lparr>EnableMetrics := True\<rparr>,
              ProviderConfig := (ProviderConfig cfg)\<lparr>Node := Some metricsProvider,
                                                     Pod := Some metricsProvider\<rparr>\<rparr>"
      "call_error env cred = None"
      "call_error env (Call_NewForConfig clientConfig) = None"
      "call_error env (Call_KubeletClientFor kubeletConfig) = None"
      "call_error env (Call_NewSourceManager sourceProvider (DefaultMetricsScrapeTimeout env)) = None"
      "call_error env (Call_Complete_New config2 informerFactory) = Some e"
      "Run env opts stopCh =
         (Return (Some (Err e)), opts',
          tr0 @ [cred, Call_NewForConfig clientConfig,
                 Call_NewSharedInformerFactory kubeClient 0,
                 Call_GetKubeletConfig clientConfig (KubeletPort opts),
                 Call_KubeletClientFor kubeletConfig, Call_Nodes_Lister informerFactory,
                 Call_NewSummaryProvider lister kubeletClient,
                 Call_NewSourceManager sourceProvider (DefaultMetricsScrapeTimeout env),
                 Call_NewSinkProvider,
                 Call_NewManager sourceManager metricSink (MetricResolution opts),
                 Call_Complete_New config2 informerFactory])"
  | (started) cfg cred clientConfig informerFactory kubeClient metricsProvider config2
      prepared server kubeletConfig sourceProvider lister kubeletClient
      sourceManager metricSink mgr where
      "err = None" "config = Some cfg"
      "cred = (if length (Kubeconfig opts) > 0 then Call_ClientConfig (Kubeconfig opts)
                 else Call_InClusterConfig)"
      "clientConfig = fst (if length (Kubeconfig opts) > 0 then ClientConfig env (Kubeconfig opts)
                             else InClusterConfig env)"
      "informerFactory = NewSharedInformerFactory env kubeClient 0"
      "metricsProvider = snd (NewSinkProvider env)"
      "config2 = cfg\<lparr>GenericConfig := (GenericConfig cfg)\<lparr>EnableMetrics := True\<rparr>,
              ProviderConfig := (ProviderConfig cfg)\<lparr>Node := Some metricsProvider,
                                                     Pod := Some metricsProvider\<rparr>\<rparr>"
      "prepared = PrepareRun env server"
      "call_error env cred = None"
      "call_error env (Call_NewForConfig clientConfig) = None"
      "call_error env (Call_KubeletClientFor kubeletConfig) = None"
      "call_error env (Call_NewSourceManager sourceProvider (DefaultMetricsScrapeTimeout env)) = None"
      "call_error env (Call_Complete_New config2 informerFactory) = None"
      "Run env opts stopCh =
         (Return (map_option Err (Run_server env prepared stopCh)), opts',
          tr0 @ [cred, Call_NewForConfig clientConfig,
                 Call_NewSharedInformerFactory kubeClient 0,
                 Call_GetKubeletConfig clientConfig (KubeletPort opts),
                 Call_KubeletClientFor kubeletConfig, Call_Nodes_Lister informerFactory,
                 Call_NewSummaryProvider lister kubeletClient,
                 Call_NewSourceManager sourceProvider (DefaultMetricsScrapeTimeout env),
                 Call_NewSinkProvider,
                 Call_NewManager sourceManager metricSink (MetricResolution opts),
                 Call_Complete_New config2 informerFactory,
                 Call_AddHealthzChecks server (NamedCheck ''healthz'' mgr),
                 Call_RunUntil mgr stopCh, Call_PrepareRun server,
                 Call_Run_server prepared stopCh])"
proof (cases err)
  case (Some e)
  show thesis
    by (rule config_err [of e]) (simp_all add: Run_def C Some)
next
  case None
  then obtain cfg where S: "config = Some cfg"
    using Config_result_cases [of env opts] by (auto simp: C)
  define cred where
    "cred = (if length (Kubeconfig opts) > 0 then Call_ClientConfig (Kubeconfig opts)
               else Call_InClusterConfig)"
  define clientConfig where
    "clientConfig = fst (if length (Kubeconfig opts) > 0 then ClientConfig env (Kubeconfig opts)
                           else InClusterConfig env)"
  define kubeClient where
    "kubeClient = fst (NewForConfig env clientConfig)"
  define informerFactory where
    "informerFactory = NewSharedInformerFactory env kubeClient 0"
  define kubeletConfig where
    "kubeletConfig = GetKubeletConfig env clientConfig (KubeletPort opts)"
  define kubeletClient where
    "kubeletClient = fst (KubeletClientFor env kubeletConfig)"
  define lister where
    "lister = Nodes_Lister env informerFactory"
  define sourceProvider where
    "sourceProvider = NewSummaryProvider env lister kubeletClient"
  define sourceManager where
    "sourceManager = fst (NewSourceManager env sourceProvider (DefaultMetricsScrapeTimeout env))"
  define metricSink where
    "metricSink = fst (NewSinkProvider env)"
  define metricsProvider where
    "metricsProvider = snd (NewSinkProvider env)"
  define mgr where
    "mgr = NewManager env sourceManager metricSink (MetricResolution opts)"
  define config2 where
    "config2 = cfg\<lparr>GenericConfig := (GenericConfig cfg)\<lparr>EnableMetrics := True\<rparr>,
            ProviderConfig := (ProviderConfig cfg)\<lparr>Node := Some metricsProvider,
                                                   Pod := Some metricsProvider\<rparr>\<rparr>"
  define server where
    "server = fst (Complete_New env config2 informerFactory)"
  define prepared where
    "prepared = PrepareRun env server"
  note defs = cred_def clientConfig_def kubeClient_def informerFactory_def kubeletConfig_def
    kubeletClient_def lister_def sourceProvider_def sourceManager_def metricSink_def
    metricsProvider_def mgr_def config2_def server_def prepared_def
  note unfold = Run_def C None S Let_def split_def
  show thesis
  proof (cases "call_error env cred")
    case F0: (Some e)
    have R: "Run env opts stopCh =
       (Return (Some (Errorf ''unable to construct lister client config: %v'' e)),
        opts',
        tr0 @ [cred])"
      by (cases "Kubeconfig opts = []")
         (use F0 in \<open>simp_all add: unfold defs\<close>)
    show thesis
      by (rule client_config_err [of cfg cred e])
         (use F0 R in \<open>simp_all add: None S\<close>, simp_all add: defs)
  next
    case E0: None
    show thesis
    proof (cases "call_error env (Call_NewForConfig clientConfig)")
      case F1: (Some e)
      have R: "Run env opts stopCh =
         (Return (Some (Errorf ''unable to construct lister client: %v'' e)),
          opts',
          tr0 @ [cred, Call_NewForConfig clientConfig])"
        by (cases "Kubeconfig opts = []")
           (use E0 F1 in \<open>simp_all add: unfold defs\<close>)
      show thesis
        by (rule client_err [of cfg cred clientConfig e])
           (use E0 F1 R in \<open>simp_all add: None S\<close>, simp_all add: defs)
    next
      case E1: None
      show thesis
      proof (cases "call_error env (Call_KubeletClientFor kubeletConfig)")
        case F2: (Some e)
        have R: "Run env opts stopCh =
           (Return (Some (Errorf ''unable to construct a client to connect to the kubelets: %v'' e)),
            opts',
            tr0 @ [cred, Call_NewForConfig clientConfig,
                   Call_NewSharedInformerFactory kubeClient 0,
                   Call_GetKubeletConfig clientConfig (KubeletPort opts),
                   Call_KubeletClientFor kubeletConfig])"
          by (cases "Kubeconfig opts = []")
             (use E0 E1 F2 in \<open>simp_all add: unfold defs\<close>)
        show thesis
          by (rule kubelet_err [of cfg cred clientConfig kubeletConfig e kubeClient])
             (use E0 E1 F2 R in \<open>simp_all add: None S\<close>, simp_all add: defs)
      next
        case E2: None
        show thesis
        proof (cases "call_error env (Call_NewSourceManager sourceProvider (DefaultMetricsScrapeTimeout env))")
          case F3: (Some e)
          have R: "Run env opts stopCh =
             (Return (Some (Errorf ''unable to initialize source manager: %v'' e)),
              opts',
              tr0 @ [cred, Call_NewForConfig clientConfig,
                     Call_NewSharedInformerFactory kubeClient 0,
                     Call_GetKubeletConfig clientConfig (KubeletPort opts),
                     Call_KubeletClientFor kubeletConfig,
                     Call_Nodes_Lister informerFactory,
                     Call_NewSummaryProvider lister kubeletClient,
                     Call_NewSourceManager sourceProvider (DefaultMetricsScrapeTimeout env)])"
            by (cases "Kubeconfig opts = []")
               (use E0 E1 E2 F3 in \<open>simp_all add: unfold defs\<close>)
          show thesis
            by (rule source_err [of cfg cred clientConfig informerFactory kubeClient kubeletConfig
                sourceProvider e lister kubeletClient])
               (use E0 E1 E2 F3 R in \<open>simp_all add: None S\<close>, simp_all add: defs)
        next
          case E3: None
          show thesis
          proof (cases "call_error env (Call_Complete_New config2 informerFactory)")
            case F4: (Some e)
            have R: "Run env opts stopCh =
               (Return (Some (Err e)),
                opts',
                tr0 @ [cred, Call_NewForConfig clientConfig,
                       Call_NewSharedInformerFactory kubeClient 0,
                       Call_GetKubeletConfig clientConfig (KubeletPort opts),
                       Call_KubeletClientFor kubeletConfig,
                       Call_Nodes_Lister informerFactory,
                       Call_NewSummaryProvider lister kubeletClient,
                       Call_NewSourceManager sourceProvider (DefaultMetricsScrapeTimeout env),
                       Call_NewSinkProvider,
                       Call_NewManager sourceManager metricSink (MetricResolution opts),
                       Call_Complete_New config2 informerFactory])"
              by (cases "Kubeconfig opts = []")
                 (use E0 E1 E2 E3 F4 in \<open>simp_all add: unfold defs\<close>)
            show thesis
              by (rule complete_err [of cfg cred clientConfig informerFactory kubeClient
                  metricsProvider config2 kubeletConfig sourceProvider e lister
                  kubeletClient sourceManager metricSink])
                 (use E0 E1 E2 E3 F4 R in \<open>simp_all add: None S\<close>, simp_all add: defs)
          next
            case E4: None
            have R: "Run env opts stopCh =
               (Return (map_option Err (Run_server env prepared stopCh)),
                opts',
                tr0 @ [cred, Call_NewForConfig clientConfig,
                       Call_NewSharedInformerFactory kubeClient 0,
                       Call_GetKubeletConfig clientConfig (KubeletPort opts),
                       Call_KubeletClientFor kubeletConfig,
                       Call_Nodes_Lister informerFactory,
                       Call_NewSummaryProvider lister kubeletClient,
                       Call_NewSourceManager sourceProvider (DefaultMetricsScrapeTimeout env),
                       Call_NewSinkProvider,
                       Call_NewManager sourceManager metricSink (MetricResolution opts),
                       Call_Complete_New config2 informerFactory,
                       Call_AddHealthzChecks server (NamedCheck ''healthz'' mgr),
                       Call_RunUntil mgr stopCh, Call_PrepareRun server,
                       Call_Run_server prepared stopCh])"
              by (cases "Kubeconfig opts = []")
                 (use E0 E1 E2 E3 E4 in \<open>simp_all add: unfold defs\<close>)
            show thesis
              by (rule started [of cfg cred clientConfig informerFactory kubeClient
                  metricsProvider config2 prepared server kubeletConfig
                  sourceProvider lister kubeletClient sourceManager metricSink
                  mgr])
                 (use E0 E1 E2 E3 E4 R in \<open>simp_all add: None S\<close>, simp_all add: defs)
          qed
        qed
      qed
    qed
  qed
qed

lemma is_config_call_not_start: "is_config_call c \<Longrightarrow> \<not> is_start c"
  by (cases c) simp_all

lemma is_config_call_not_credential: "is_config_call c \<Longrightarrow> \<not> is_credential_call c"
  by (cases c) simp_all


lemma Config_no_starts: "filter is_start (snd (snd (Config env opts))) = []"
  using Config_calls [of _ env opts] is_config_call_not_start
  by (auto simp: filter_empty_conv)

lemma Config_no_credential_calls: "filter is_credential_call (snd (snd (Config env opts))) = []"
  using Config_calls [of _ env opts] is_config_call_not_credential
  by (auto simp: filter_empty_conv)

subsection \<open>Some runs, evaluated\<close>

lemma Config_example:
  "Config example_env example_opts =
     ((Some \<lparr>GenericConfig =
               \<lparr>gc_SecureServing = SecureServingInfo_obj 1,
                gc_Authentication = AuthenticationInfo_obj 1,
                gc_Authorization = AuthorizationInfo_obj 1,
                SwaggerConfig = Some (SwaggerConfig_obj 1),
                EnableMetrics = False\<rparr>,
             ProviderConfig = \<lparr>Node = None, Pod = None\<rparr>\<rparr>, None),
      example_opts\<lparr>SecureServing :=
        \<lparr>CertFile = ''apiserver.crt'', KeyFile = ''apiserver.key''\<rparr>\<rparr>,
      [Call_MaybeDefaultWithSelfSignedCerts \<lparr>CertFile = [], KeyFile = []\<rparr>
         ''localhost'' [] [ParseIP ''127.0.0.1''],
       Call_NewConfig,
       Call_SecureServing_ApplyTo
         \<lparr>CertFile = ''apiserver.crt'', KeyFile = ''apiserver.key''\<rparr>
         (SecureServingInfo_obj 0),
       Call_Authentication_ApplyTo (DelegatingAuthenticationOptions_obj 0)
         (AuthenticationInfo_obj 0) (SecureServingInfo_obj 1) None,
       Call_Authorization_ApplyTo (DelegatingAuthorizationOptions_obj 0)
         (AuthorizationInfo_obj 0),
       Call_DefaultSwaggerConfig])"
  by (simp add: Config_def example_env_def example_opts_def
        spec_MaybeDefaultWithSelfSignedCerts_def)

lemma Config_port_in_use:
  "Config port_in_use_env example_opts =
     ((None, Some (Err ''failed to create listener: address already in use'')),
      example_opts\<lparr>SecureServing :=
        \<lparr>CertFile = ''apiserver.crt'', KeyFile = ''apiserver.key''\<rparr>\<rparr>,
      [Call_MaybeDefaultWithSelfSignedCerts \<lparr>CertFile = [], KeyFile = []\<rparr>
         ''localhost'' [] [ParseIP ''127.0.0.1''],
       Call_NewConfig,
       Call_SecureServing_ApplyTo
         \<lparr>CertFile = ''apiserver.crt'', KeyFile = ''apiserver.key''\<rparr>
         (SecureServingInfo_obj 0)])"
  by (simp add: Config_def port_in_use_env_def example_env_def example_opts_def
        spec_MaybeDefaultWithSelfSignedCerts_def)

lemma Run_port_in_use:
  "Run port_in_use_env example_opts (stop_chan_obj 0) =
     (Return (Some (Err ''failed to create listener: address already in use'')),
      example_opts\<lparr>SecureServing :=
        \<lparr>CertFile = ''apiserver.crt'', KeyFile = ''apiserver.key''\<rparr>\<rparr>,
      [Call_MaybeDefaultWithSelfSignedCerts \<lparr>CertFile = [], KeyFile = []\<rparr>
         ''localhost'' [] [ParseIP ''127.0.0.1''],
       Call_NewConfig,
       Call_SecureServing_ApplyTo
         \<lparr>CertFile = ''apiserver.crt'', KeyFile = ''apiserver.key''\<rparr>
         (SecureServingInfo_obj 0)])"
  by (simp add: Run_def Config_port_in_use)

lemma Run_example:
  "Run example_env example_opts (stop_chan_obj 0) =
     (Return None,
      example_opts\<lparr>SecureServing :=
        \<lparr>CertFile = ''apiserver.crt'', KeyFile = ''apiserver.key''\<rparr>\<rparr>,
      [Call_MaybeDefaultWithSelfSignedCerts \<lparr>CertFile = [], KeyFile = []\<rparr>
         ''localhost'' [] [ParseIP ''127.0.0.1''],
       Call_NewConfig,
       Call_SecureServing_ApplyTo
         \<lparr>CertFile = ''apiserver.crt'', KeyFile = ''apiserver.key''\<rparr>
         (SecureServingInfo_obj 0),
       Call_Authentication_ApplyTo (DelegatingAuthenticationOptions_obj 0)
         (AuthenticationInfo_obj 0) (SecureServingInfo_obj 1) None,
       Call_Authorization_ApplyTo (DelegatingAuthorizationOptions_obj 0)
         (AuthorizationInfo_obj 0),
       Call_DefaultSwaggerConfig,
       Call_InClusterConfig,
       Call_NewForConfig (rest_Config_obj 2),
       Call_NewSharedInformerFactory (Clientset_obj 1) 0,
       Call_GetKubeletConfig (rest_Config_obj 2) 10250,
       Call_KubeletClientFor (KubeletClientConfig_obj 1),
       Call_Nodes_Lister (SharedInformerFactory_obj 1),
       Call_NewSummaryProvider (NodeLister_obj 1) (KubeletInterface_obj 1),
       Call_NewSourceManager (MetricSourceProvider_obj 1) 8000000000,
       Call_NewSinkProvider,
       Call_NewManager (MetricSource_obj 1) (MetricSink_obj 1) 60000000000,
       Call_Complete_New
         \<lparr>GenericConfig =
            \<lparr>gc_SecureServing = SecureServingInfo_obj 1,
             gc_Authentication = AuthenticationInfo_obj 1,
             gc_Authorization = AuthorizationInfo_obj 1,
             SwaggerConfig = Some (SwaggerConfig_obj 1),
             EnableMetrics = True\<rparr>,
          ProviderConfig = \<lparr>Node = Some (MetricsProvider_obj 1),
                            Pod = Some (MetricsProvider_obj 1)\<rparr>\<rparr>
         (SharedInformerFactory_obj 1),
       Call_AddHealthzChecks (MetricsServer_obj 1) (NamedCheck ''healthz'' (Manager_obj 1)),
       Call_RunUntil (Manager_obj 1) (stop_chan_obj 0),
       Call_PrepareRun (MetricsServer_obj 1),
       Call_Run_server (preparedGenericAPIServer_obj 1) (stop_chan_obj 0)])"
proof -
  have opts: "Kubeconfig example_opts = []" "KubeletPort example_opts = 10250"
    "MetricResolution example_opts = 60000000000"
    by (simp_all add: example_opts_def)
  show ?thesis
    apply (simp add: Run_def Config_example Let_def opts)
    apply (simp add: example_env_def Let_def opts)
    done
qed

lemma Run_outside_cluster:
  "Run outside_cluster_env example_opts (stop_chan_obj 0) =
     (Return (Some (Errorf ''unable to construct lister client config: %v''
        ''unable to load in-cluster configuration'')),
      example_opts\<lparr>SecureServing :=
        \<lparr>CertFile = ''apiserver.crt'', KeyFile = ''apiserver.key''\<rparr>\<rparr>,
      [Call_MaybeDefaultWithSelfSignedCerts \<lparr>CertFile = [], KeyFile = []\<rparr>
         ''localhost'' [] [ParseIP ''127.0.0.1''],
       Call_NewConfig,
       Call_SecureServing_ApplyTo
         \<lparr>CertFile = ''apiserver.crt'', KeyFile = ''apiserver.key''\<rparr>
         (SecureServingInfo_obj 0),
       Call_Authentication_ApplyTo (DelegatingAuthenticationOptions_obj 0)
         (AuthenticationInfo_obj 0) (SecureServingInfo_obj 1) None,
       Call_Authorization_ApplyTo (DelegatingAuthorizationOptions_obj 0)
         (AuthorizationInfo_obj 0),
       Call_DefaultSwaggerConfig,
       Call_InClusterConfig])"
proof -
  have C: "Config outside_cluster_env example_opts =
     (fst (Config example_env example_opts),
      example_opts\<lparr>SecureServing :=
        \<lparr>CertFile = ''apiserver.crt'', KeyFile = ''apiserver.key''\<rparr>\<rparr>,
      snd (snd (Config example_env example_opts)))"
    unfolding Config_example
    by (simp add: Config_def outside_cluster_env_def example_env_def example_opts_def
          spec_MaybeDefaultWithSelfSignedCerts_def)
  have opts: "Kubeconfig example_opts = []"
    by (simp add: example_opts_def)
  show ?thesis
    apply (simp add: Run_def C Config_example Let_def opts)
    apply (simp add: outside_cluster_env_def example_env_def Let_def opts)
    done
qed


section \<open>Configuration assembly\<close>





lemma Config_never_applies_features:
  "Call_Features_ApplyTo f c \<notin> set (snd (snd (Config env opts)))"
  by (auto simp add: Config_def Let_def split_def split: option.splits if_splits)

lemma Config_ignores_features:
  "fst (Config env (opts\<lparr>Features := f\<rparr>)) = fst (Config env opts) \<and>
   snd (snd (Config env (opts\<lparr>Features := f\<rparr>))) = snd (snd (Config env opts))"
  by (simp add: Config_def Let_def split_def split: option.splits)

text \<open>
  Claim C4.  The spec lists the application of the feature options as the
  fourth step of configuration assembly.  \<open>Config\<close> makes no such call: for the
  options of the example with other feature options than the default ones,
  the calls are the TLS defaulting step, the three applications and the
  swagger default, and the result is the one for the default feature options.
\<close>

theorem Config_skips_features:
  "snd (snd (Config example_env (example_opts\<lparr>Features := FeatureOptions_obj 1\<rparr>))) =
     [Call_MaybeDefaultWithSelfSignedCerts \<lparr>CertFile = [], KeyFile = []\<rparr>
        ''localhost'' [] [ParseIP ''127.0.0.1''],
      Call_NewConfig,
      Call_SecureServing_ApplyTo
        \<lparr>CertFile = ''apiserver.crt'', KeyFile = ''apiserver.key''\<rparr>
        (SecureServingInfo_obj 0),
      Call_Authentication_ApplyTo (DelegatingAuthenticationOptions_obj 0)
        (AuthenticationInfo_obj 0) (SecureServingInfo_obj 1) None,
      Call_Authorization_ApplyTo (DelegatingAuthorizationOptions_obj 0)
        (AuthorizationInfo_obj 0),
      Call_DefaultSwaggerConfig] \<and>
   fst (Config example_env (example_opts\<lparr>Features := FeatureOptions_obj 1\<rparr>)) =
     fst (Config example_env example_opts)"
  using Config_ignores_features
    [where env = example_env and opts = example_opts and f = "FeatureOptions_obj 1"]
  by (simp add: Config_example)


section \<open>Start-up\<close>

lemma Run_never_panics: "fst (Run env opts stopCh) \<noteq> Panic"
proof -
  obtain config err opts' tr0 where C: "Config env opts = ((config, err), opts', tr0)"
    by (cases "Config env opts") auto
  from C show ?thesis
    by (cases rule: Run_cases [where stopCh = stopCh]) simp_all
qed

text \<open>
  Claim C10.  The check that follows the construction of the manager tests
  the error variable of the source manager's construction, which was found
  nil just before, and the manager's constructor assigns no error.  So \<open>Run\<close>
  never returns the error of that branch.
\<close>

theorem Run_never_returns_main_manager_error:
  "fst (Run env opts stopCh) \<noteq>
     Return (Some (Errorf ''unable to create main manager: %v'' e))"
proof -
  obtain config err opts' tr0 where C: "Config env opts = ((config, err), opts', tr0)"
    by (cases "Config env opts") auto
  from C show ?thesis
  proof (cases rule: Run_cases [where stopCh = stopCh])
    case (config_err x)
    then show ?thesis
      using Config_error_forms [of env opts x] by (auto simp: C)
  qed (simp_all split: option.splits)
qed





text \<open>
  Claim C3.  Whenever \<open>Run\<close> hands the configuration over to be completed
  into a server, the node slot and the pod slot of its provider configuration
  both hold the provider that \<open>NewSinkProvider\<close> returned, and
  \<open>NewSinkProvider\<close> was called before.
\<close>

theorem Run_provider_slots:
  "\<forall>c f. Call_Complete_New c f \<in> set (snd (snd (Run env opts stopCh))) \<longrightarrow>
     Node (ProviderConfig c) = Some (snd (NewSinkProvider env)) \<and>
     Pod (ProviderConfig c) = Some (snd (NewSinkProvider env)) \<and>
     Call_NewSinkProvider \<in>
       set (calls_before (Call_Complete_New c f) (snd (snd (Run env opts stopCh))))"
proof -
  obtain config err opts' tr0 where C: "Config env opts = ((config, err), opts', tr0)"
    by (cases "Config env opts") auto
  have not_complete: "Call_Complete_New c f \<notin> set tr0" for c f
    using Config_calls [of "Call_Complete_New c f" env opts] by (auto simp: C)
  have skip: "\<And>c f xs. takeWhile (\<lambda>x. x \<noteq> Call_Complete_New c f) (tr0 @ xs) =
      tr0 @ takeWhile (\<lambda>x. x \<noteq> Call_Complete_New c f) xs"
    using not_complete by (intro takeWhile_append2) auto
  from C show ?thesis
    by (cases rule: Run_cases [where stopCh = stopCh])
       (use not_complete skip in \<open>auto simp: calls_before_def split: if_splits\<close>)
qed

theorem Run_provider_slots_witness:
  "Call_Complete_New
     \<lparr>GenericConfig =
        \<lparr>gc_SecureServing = SecureServingInfo_obj 1,
         gc_Authentication = AuthenticationInfo_obj 1,
         gc_Authorization = AuthorizationInfo_obj 1,
         SwaggerConfig = Some (SwaggerConfig_obj 1),
         EnableMetrics = True\<rparr>,
      ProviderConfig = \<lparr>Node = Some (MetricsProvider_obj 1),
                        Pod = Some (MetricsProvider_obj 1)\<rparr>\<rparr>
     (SharedInformerFactory_obj 1)
     \<in> set (snd (snd (Run example_env example_opts (stop_chan_obj 0)))) \<and>
   snd (NewSinkProvider example_env) = MetricsProvider_obj 1 \<and>
   Call_NewSinkProvider \<in>
     set (calls_before
            (Call_Complete_New
               \<lparr>GenericConfig =
                  \<lparr>gc_SecureServing = SecureServingInfo_obj 1,
                   gc_Authentication = AuthenticationInfo_obj 1,
                   gc_Authorization = AuthorizationInfo_obj 1,
                   SwaggerConfig = Some (SwaggerConfig_obj 1),
                   EnableMetrics = True\<rparr>,
                ProviderConfig = \<lparr>Node = Some (MetricsProvider_obj 1),
                                  Pod = Some (MetricsProvider_obj 1)\<rparr>\<rparr>
               (SharedInformerFactory_obj 1))
            (snd (snd (Run example_env example_opts (stop_chan_obj 0)))))"
proof -
  have made: "Call_Complete_New
     \<lparr>GenericConfig =
        \<lparr>gc_SecureServing = SecureServingInfo_obj 1,
         gc_Authentication = AuthenticationInfo_obj 1,
         gc_Authorization = AuthorizationInfo_obj 1,
         SwaggerConfig = Some (SwaggerConfig_obj 1),
         EnableMetrics = True\<rparr>,
      ProviderConfig = \<lparr>Node = Some (MetricsProvider_obj 1),
                        Pod = Some (MetricsProvider_obj 1)\<rparr>\<rparr>
     (SharedInformerFactory_obj 1)
     \<in> set (snd (snd (Run example_env example_opts (stop_chan_obj 0))))"
    by (simp add: Run_example)
  have provider: "snd (NewSinkProvider example_env) = MetricsProvider_obj 1"
    by (simp add: example_env_def)
  show ?thesis
    using Run_provider_slots
      [where env = example_env and opts = example_opts and stopCh = "stop_chan_obj 0"]
      made provider
    by blast
qed

text \<open>
  Claim C8.  Every call of \<open>NewSharedInformerFactory\<close> that \<open>Run\<close> makes has
  the resync interval 0, and the factory that the node lister is taken from
  and that the configuration is completed with is one made with that
  interval.
\<close>

theorem Run_informer_resync_zero:
  "(\<forall>k r. Call_NewSharedInformerFactory k r \<in> set (snd (snd (Run env opts stopCh))) \<longrightarrow>
      r = 0) \<and>
   (\<forall>f. Call_Nodes_Lister f \<in> set (snd (snd (Run env opts stopCh))) \<longrightarrow>
      (\<exists>k. f = NewSharedInformerFactory env k 0)) \<and>
   (\<forall>c f. Call_Complete_New c f \<in> set (snd (snd (Run env opts stopCh))) \<longrightarrow>
      (\<exists>k. f = NewSharedInformerFactory env k 0))"
proof -
  obtain config err opts' tr0 where C: "Config env opts = ((config, err), opts', tr0)"
    by (cases "Config env opts") auto
  have none:
    "Call_NewSharedInformerFactory k r \<notin> set tr0"
    "Call_Nodes_Lister f \<notin> set tr0"
    "Call_Complete_New c f \<notin> set tr0" for k r f c
    using Config_calls [of "Call_NewSharedInformerFactory k r" env opts]
      Config_calls [of "Call_Nodes_Lister f" env opts]
      Config_calls [of "Call_Complete_New c f" env opts]
    by (auto simp: C)
  from C show ?thesis
    by (cases rule: Run_cases [where stopCh = stopCh])
       (use none in \<open>auto split: if_splits\<close>)
qed

theorem Run_informer_resync_zero_witness:
  "Call_NewSharedInformerFactory (Clientset_obj 1) 0
     \<in> set (snd (snd (Run example_env example_opts (stop_chan_obj 0)))) \<and>
   Call_Nodes_Lister (SharedInformerFactory_obj 1)
     \<in> set (snd (snd (Run example_env example_opts (stop_chan_obj 0)))) \<and>
   (\<exists>k. SharedInformerFactory_obj 1 = NewSharedInformerFactory example_env k 0)"
proof -
  have made:
    "Call_NewSharedInformerFactory (Clientset_obj 1) 0
       \<in> set (snd (snd (Run example_env example_opts (stop_chan_obj 0))))"
    "Call_Nodes_Lister (SharedInformerFactory_obj 1)
       \<in> set (snd (snd (Run example_env example_opts (stop_chan_obj 0))))"
    by (simp_all add: Run_example)
  show ?thesis
    using Run_informer_resync_zero
      [where env = example_env and opts = example_opts and stopCh = "stop_chan_obj 0"]
      made
    by blast
qed


lemma Config_calls_distinct: "distinct (snd (snd (Config env opts)))"
  by (simp add: Config_def Let_def split_def split: option.splits)

text \<open>
  Claim C5, as the code has it.  The claim says that every construction-time
  error is wrapped with the name of its stage.  The error of the
  secure-serving application is returned as it is:
\<close>

theorem Run_returns_serving_error_unwrapped:
  "call_error port_in_use_env
     (Call_SecureServing_ApplyTo \<lparr>CertFile = ''apiserver.crt'', KeyFile = ''apiserver.key''\<rparr>
        (SecureServingInfo_obj 0))
     = Some ''failed to create listener: address already in use'' \<and>
   fst (Run port_in_use_env example_opts (stop_chan_obj 0)) =
     Return (Some (Err ''failed to create listener: address already in use'')) \<and>
   Error (Err ''failed to create listener: address already in use'') =
     ''failed to create listener: address already in use''"
  unfolding Run_port_in_use by (simp add: port_in_use_env_def)

text \<open>
  Claim C5, amended.  When a call made before the starts comes back with an
  error, \<open>Run\<close> returns what the return statement after that call hands back:
  the error inside a message naming the stage for the TLS defaulting step, the
  client configuration, the client, the kubelet client and the source manager,
  and the error itself for the secure-serving, authentication and
  authorization applications and for the completion of the server.  The
  failed call is the last call made, and no call is made twice: nothing is
  retried.
\<close>

theorem Run_error_propagation:
  "(\<forall>c\<in>set (snd (snd (Run env opts stopCh))). \<forall>e.
      \<not> is_start c \<and> call_error env c = Some e \<longrightarrow>
      fst (Run env opts stopCh) = Return (Some (returned_for c e)) \<and>
      last (snd (snd (Run env opts stopCh))) = c) \<and>
   distinct (snd (snd (Run env opts stopCh)))"
proof -
  obtain config err opts' tr0 where C: "Config env opts = ((config, err), opts', tr0)"
    by (cases "Config env opts") auto
  have failed: "\<And>c e. c \<in> set tr0 \<Longrightarrow> call_error env c = Some e \<Longrightarrow>
      err = Some (returned_for c e) \<and> last tr0 = c"
    using Config_failed_call [of _ env opts] by (simp add: C)
  have ok: "err = None \<Longrightarrow> \<forall>c\<in>set tr0. call_error env c = None"
    using Config_ok_calls [of env opts] by (simp add: C)
  have dist: "distinct tr0"
    using Config_calls_distinct [of env opts] by (simp add: C)
  have others: "c \<notin> set tr0" if "\<not> is_config_call c" for c
    using Config_calls [of c env opts] that by (auto simp: C)
  from C show ?thesis
  proof (cases rule: Run_cases [where stopCh = stopCh])
    case (config_err x)
    then show ?thesis
      using failed dist by auto
  qed (use ok dist in \<open>auto simp: others split: if_splits\<close>)
qed

theorem Run_error_propagation_witness:
  "Call_InClusterConfig
     \<in> set (snd (snd (Run outside_cluster_env example_opts (stop_chan_obj 0)))) \<and>
   \<not> is_start Call_InClusterConfig \<and>
   call_error outside_cluster_env Call_InClusterConfig =
     Some ''unable to load in-cluster configuration'' \<and>
   fst (Run outside_cluster_env example_opts (stop_chan_obj 0)) =
     Return (Some (Errorf ''unable to construct lister client config: %v''
       ''unable to load in-cluster configuration'')) \<and>
   last (snd (snd (Run outside_cluster_env example_opts (stop_chan_obj 0)))) =
     Call_InClusterConfig"
proof -
  have made: "Call_InClusterConfig
      \<in> set (snd (snd (Run outside_cluster_env example_opts (stop_chan_obj 0))))"
    by (simp add: Run_outside_cluster)
  have failed: "call_error outside_cluster_env Call_InClusterConfig =
      Some ''unable to load in-cluster configuration''"
    by (simp add: outside_cluster_env_def)
  have returned:
    "fst (Run outside_cluster_env example_opts (stop_chan_obj 0)) =
       Return (Some (returned_for Call_InClusterConfig
         ''unable to load in-cluster configuration'')) \<and>
     last (snd (snd (Run outside_cluster_env example_opts (stop_chan_obj 0)))) =
       Call_InClusterConfig"
    using Run_error_propagation
      [where env = outside_cluster_env and opts = example_opts and stopCh = "stop_chan_obj 0"]
      made failed
    by (meson is_start.simps)
  show ?thesis
    using made failed returned by simp
qed


text \<open>
  Claim C7.  When configuration assembly has succeeded, \<open>Run\<close> resolves the
  credentials of the cluster client by exactly one call: the loading of the
  file named by \<open>Kubeconfig\<close> when that path is not empty, the in-cluster
  configuration otherwise; the client is then built from the configuration
  that this call returned.  If the call comes back with an error, \<open>Run\<close>
  returns it inside the message of the client-configuration stage, makes no
  further call and starts nothing.
\<close>

theorem Run_credential_resolution:
  "filter is_credential_call (snd (snd (Run env opts stopCh))) =
     (if snd (fst (Config env opts)) \<noteq> None then []
      else [if length (Kubeconfig opts) > 0 then Call_ClientConfig (Kubeconfig opts)
            else Call_InClusterConfig]) \<and>
   (\<forall>rc. Call_NewForConfig rc \<in> set (snd (snd (Run env opts stopCh))) \<longrightarrow>
      rc = fst (if length (Kubeconfig opts) > 0 then ClientConfig env (Kubeconfig opts)
                else InClusterConfig env)) \<and>
   (\<forall>c\<in>set (snd (snd (Run env opts stopCh))). \<forall>e.
      is_credential_call c \<and> call_error env c = Some e \<longrightarrow>
      fst (Run env opts stopCh) =
        Return (Some (Errorf ''unable to construct lister client config: %v'' e)) \<and>
      last (snd (snd (Run env opts stopCh))) = c \<and>
      filter is_start (snd (snd (Run env opts stopCh))) = [])"
proof -
  obtain config err opts' tr0 where C: "Config env opts = ((config, err), opts', tr0)"
    by (cases "Config env opts") auto
  have others: "c \<notin> set tr0" if "\<not> is_config_call c" for c
    using Config_calls [of c env opts] that by (auto simp: C)
  have no_cred: "filter is_credential_call tr0 = []"
    using Config_no_credential_calls [of env opts] by (simp add: C)
  have not_cred: "\<not> is_credential_call c" if "c \<in> set tr0" for c
    using Config_calls [of c env opts] is_config_call_not_credential that by (auto simp: C)
  have no_starts: "filter is_start tr0 = []"
    using Config_no_starts [of env opts] by (simp add: C)
  from C show ?thesis
    by (cases rule: Run_cases [where stopCh = stopCh])
       (use no_cred not_cred no_starts in \<open>auto simp: C others split: if_splits\<close>)
qed

theorem Run_credential_resolution_witness:
  "0 < length (Kubeconfig kubeconfig_opts) \<and>
   snd (fst (Config example_env kubeconfig_opts)) = None \<and>
   filter is_credential_call (snd (snd (Run example_env kubeconfig_opts (stop_chan_obj 0)))) =
     [Call_ClientConfig ''/etc/kubernetes/admin.conf''] \<and>
   Call_InClusterConfig
     \<in> set (snd (snd (Run outside_cluster_env example_opts (stop_chan_obj 0)))) \<and>
   is_credential_call Call_InClusterConfig \<and>
   call_error outside_cluster_env Call_InClusterConfig =
     Some ''unable to load in-cluster configuration'' \<and>
   fst (Run outside_cluster_env example_opts (stop_chan_obj 0)) =
     Return (Some (Errorf ''unable to construct lister client config: %v''
       ''unable to load in-cluster configuration'')) \<and>
   last (snd (snd (Run outside_cluster_env example_opts (stop_chan_obj 0)))) =
     Call_InClusterConfig \<and>
   filter is_start (snd (snd (Run outside_cluster_env example_opts (stop_chan_obj 0)))) = []"
proof -
  have path: "Kubeconfig kubeconfig_opts = ''/etc/kubernetes/admin.conf''"
    by (simp add: kubeconfig_opts_def)
  have ok: "snd (fst (Config example_env kubeconfig_opts)) = None"
    by (simp add: Config_def example_env_def kubeconfig_opts_def example_opts_def
          spec_MaybeDefaultWithSelfSignedCerts_def)
  have loaded:
    "filter is_credential_call
       (snd (snd (Run example_env kubeconfig_opts (stop_chan_obj 0)))) =
     [Call_ClientConfig ''/etc/kubernetes/admin.conf'']"
    using Run_credential_resolution
      [where env = example_env and opts = kubeconfig_opts and stopCh = "stop_chan_obj 0"]
    by (simp add: ok path)
  have made: "Call_InClusterConfig
      \<in> set (snd (snd (Run outside_cluster_env example_opts (stop_chan_obj 0))))"
    by (simp add: Run_outside_cluster)
  have failed: "call_error outside_cluster_env Call_InClusterConfig =
      Some ''unable to load in-cluster configuration''"
    by (simp add: outside_cluster_env_def)
  have aborted:
    "fst (Run outside_cluster_env example_opts (stop_chan_obj 0)) =
       Return (Some (Errorf ''unable to construct lister client config: %v''
         ''unable to load in-cluster configuration'')) \<and>
     last (snd (snd (Run outside_cluster_env example_opts (stop_chan_obj 0)))) =
       Call_InClusterConfig \<and>
     filter is_start (snd (snd (Run outside_cluster_env example_opts (stop_chan_obj 0)))) = []"
    using Run_credential_resolution
      [where env = outside_cluster_env and opts = example_opts and stopCh = "stop_chan_obj 0"]
      made failed
    by (meson is_credential_call.simps)
  show ?thesis
    using path ok loaded made failed aborted by simp
qed






end
